theory Spec2Isabelle
  imports Main "HOL-Library.Word"
begin

section \<open>Data model\<close>

text \<open>
  The Go types the five source files work on, as far as the code reads them. A pointer
  that some function of the repository compares with \<^verbatim>\<open>nil\<close> is an \<open>option\<close>
  (\<open>None\<close> is \<^verbatim>\<open>nil\<close>), and a field access through \<open>None\<close> is a panic, which
  the functions below return as \<open>Inl NilPointerDereference\<close>. A slice that the code
  compares with \<^verbatim>\<open>nil\<close> is an optional list; \<open>len\<close> and \<open>elements\<close> (what a
  \<^verbatim>\<open>range\<close> loop visits) treat the nil slice as Go does, as a slice without
  elements. The elements of \<^verbatim>\<open>Parts\<close>, the request given to \<^verbatim>\<open>TraceLLMCall\<close> and the interface values (tool, invocation
  context, spans) are dereferenced everywhere in the source without a test; they are
  taken as present.
\<close>

datatype error = NilPointerDereference

typedecl go_value \<comment> \<open>what an \<^verbatim>\<open>any\<close> inside a \<^verbatim>\<open>map[string]any\<close> holds\<close>
typedecl Blob \<comment> \<open>\<^verbatim>\<open>genai.Blob\<close>, only tested for presence\<close>
typedecl float32

type_synonym any_map = "string \<rightharpoonup> go_value"

record FunctionCall =
  call_Name :: string

record FunctionResponse =
  resp_ID :: string
  resp_Name :: string
  Response :: "any_map option"

record Part =
  InlineData :: "Blob option"
  FunctionCall :: "FunctionCall option"
  FunctionResponse :: "FunctionResponse option"

record Content =
  Role :: string
  Parts :: "Part list option"

record LLMResponse =
  Content :: "Content option"

record Event =
  ID :: string
  InvocationID :: string
  Author :: string
  LLMResponse :: "LLMResponse option"

definition len :: "'a list option \<Rightarrow> nat" where
  "len s = (case s of None \<Rightarrow> 0 | Some xs \<Rightarrow> length xs)"

definition elements :: "'a list option \<Rightarrow> 'a list" where
  "elements s = (case s of None \<Rightarrow> [] | Some xs \<Rightarrow> xs)"

text \<open>Reading a \<^verbatim>\<open>map[string]string\<close> at a key it does not hold gives the empty string.\<close>

definition index :: "(string \<rightharpoonup> string) \<Rightarrow> string \<Rightarrow> string" where
  "index m k = (case m k of None \<Rightarrow> [] | Some v \<Rightarrow> v)"

section \<open>The debug handlers (cmd/restapi/handlers/debug.go)\<close>

text \<open>
  A handler's answer is the one call it makes on the response writer:
  \<^verbatim>\<open>http.Error(rw, msg, code)\<close> or \<^verbatim>\<open>EncodeJSONResponse(payload, code, rw)\<close>.
\<close>

datatype response =
  http_Error string nat
  | EncodeJSONResponse "string \<rightharpoonup> string" nat

definition StatusOK :: nat where "StatusOK = 200"
definition StatusBadRequest :: nat where "StatusBadRequest = 400"
definition StatusNotFound :: nat where "StatusNotFound = 404"
definition StatusInternalServerError :: nat where "StatusInternalServerError = 500"

type_synonym TraceStore = "string \<rightharpoonup> (string \<rightharpoonup> string)"

text \<open>
  \<^verbatim>\<open>TraceDict\<close>: \<open>params\<close> is \<^verbatim>\<open>mux.Vars(req)\<close>, \<open>traceDict\<close> is what
  \<^verbatim>\<open>c.spansExporter.GetTraceDict()\<close> returns, the exporter's live map.
\<close>

definition TraceDict :: "TraceStore \<Rightarrow> (string \<rightharpoonup> string) \<Rightarrow> response" where
  "TraceDict traceDict params =
     (let eventID = index params ''event_id'' in
      if eventID = [] then http_Error ''event_id parameter is required'' StatusBadRequest
      else (case traceDict eventID of
              None \<Rightarrow> http_Error (''event not found: '' @ eventID) StatusNotFound
            | Some eventDict \<Rightarrow> EncodeJSONResponse eventDict StatusOK))"

definition functionalCalls :: "Event \<Rightarrow> FunctionCall list option" where
  "functionalCalls event =
     (case LLMResponse event of
        None \<Rightarrow> None
      | Some r \<Rightarrow>
          (case Content r of
             None \<Rightarrow> None
           | Some c \<Rightarrow>
               (case Parts c of
                  None \<Rightarrow> None
                | Some ps \<Rightarrow> Some (List.map_filter FunctionCall ps))))"

definition functionalResponses :: "Event \<Rightarrow> FunctionResponse list option" where
  "functionalResponses event =
     (case LLMResponse event of
        None \<Rightarrow> None
      | Some r \<Rightarrow>
          (case Content r of
             None \<Rightarrow> None
           | Some c \<Rightarrow>
               (case Parts c of
                  None \<Rightarrow> None
                | Some ps \<Rightarrow> Some (List.map_filter FunctionResponse ps))))"

text \<open>
  Lines 96 to 114 of \<^verbatim>\<open>EventGraph\<close>, the computation of \<^verbatim>\<open>highlightedPairs\<close>
  from the event found. Each pair is the two-element slice the source builds.
\<close>

definition highlightedPairs :: "Event \<Rightarrow> string list list" where
  "highlightedPairs event =
     (let fc = functionalCalls event;
          fr = functionalResponses event in
      if len fc > 0 then
        map (\<lambda>f. [call_Name f, Author event]) (filter (\<lambda>f. call_Name f \<noteq> []) (elements fc))
      else if len fr > 0 then
        map (\<lambda>f. [resp_Name f, Author event]) (filter (\<lambda>f. resp_Name f \<noteq> []) (elements fr))
      else [[Author event, Author event]])"

record SessionID =
  AppName :: string
  UserID :: string
  session_ID :: string

text \<open>
  \<^verbatim>\<open>EventGraph\<close> with its collaborators as parameters: the decoding of the session id
  from the route, the session service's \<^verbatim>\<open>Get\<close> (giving the session's events in
  order), the agent loader and the graph renderer. An \<open>Inl\<close> of a collaborator is the
  text of the error it returned.
\<close>

definition EventGraph ::
  "((string \<rightharpoonup> string) \<Rightarrow> string + SessionID) \<Rightarrow> (SessionID \<Rightarrow> string + Event list) \<Rightarrow>
   (string \<Rightarrow> string + 'agent) \<Rightarrow> ('agent \<Rightarrow> string list list \<Rightarrow> string + string) \<Rightarrow>
   (string \<rightharpoonup> string) \<Rightarrow> response" where
  "EventGraph SessionIDFromHTTPParameters sessionService_Get LoadAgent GetAgentGraph vars =
     (case SessionIDFromHTTPParameters vars of
        Inl err \<Rightarrow> http_Error err StatusBadRequest
      | Inr sessionID \<Rightarrow>
          (case sessionService_Get sessionID of
             Inl err \<Rightarrow> http_Error err StatusBadRequest
           | Inr events \<Rightarrow>
               (let eventID = index vars ''event_id'' in
                if eventID = [] then
                  http_Error ''event_id parameter is required'' StatusBadRequest
                else
                  (case find (\<lambda>it. ID it = eventID) events of
                     None \<Rightarrow> http_Error ''event not found'' StatusNotFound
                   | Some event \<Rightarrow>
                       (let pairs = highlightedPairs event in
                        case LoadAgent (AppName sessionID) of
                          Inl err \<Rightarrow> http_Error err StatusInternalServerError
                        | Inr agent \<Rightarrow>
                            (case GetAgentGraph agent pairs of
                               Inl err \<Rightarrow> http_Error err StatusInternalServerError
                             | Inr graph \<Rightarrow>
                                 EncodeJSONResponse [''dotSrc'' \<mapsto> graph] StatusOK))))))"

section \<open>Span attributes (go.opentelemetry.io/otel/attribute)\<close>

text \<open>
  The attribute values of the tracing library, by kind. \<open>AsString\<close> is the library's
  accessor: the string of a string value, the empty string for every other kind. An
  \<^verbatim>\<open>attribute.Int\<close> is stored as a 64-bit integer. The source widens the
  \<^verbatim>\<open>float32\<close> of \<^verbatim>\<open>TopP\<close> to a \<^verbatim>\<open>float64\<close>, which changes no value, so a
  float attribute keeps the \<open>float32\<close> it came from.
\<close>

datatype Value =
  BoolValue bool
  | Int64Value "64 word"
  | Float64Value float32
  | StringValue string
  | BoolSliceValue "bool list"
  | Int64SliceValue "64 word list"
  | Float64SliceValue "float32 list"
  | StringSliceValue "string list"

fun AsString :: "Value \<Rightarrow> string" where
  "AsString (StringValue s) = s"
| "AsString _ = []"

record KeyValue =
  Key :: string
  Value :: Value

definition attribute_String :: "string \<Rightarrow> string \<Rightarrow> KeyValue" where
  "attribute_String k v = \<lparr>Key = k, Value = StringValue v\<rparr>"

definition attribute_Float64 :: "string \<Rightarrow> float32 \<Rightarrow> KeyValue" where
  "attribute_Float64 k v = \<lparr>Key = k, Value = Float64Value v\<rparr>"

definition attribute_Int :: "string \<Rightarrow> 64 word \<Rightarrow> KeyValue" where
  "attribute_Int k v = \<lparr>Key = k, Value = Int64Value v\<rparr>"

section \<open>The debug trace store (APIServerSpanExporter)\<close>

text \<open>
  A finished span as the exporter reads it: \<^verbatim>\<open>Name()\<close>, \<^verbatim>\<open>Attributes()\<close>, and the
  two identifiers of \<^verbatim>\<open>SpanContext()\<close> as the hexadecimal strings that
  \<^verbatim>\<open>TraceID().String()\<close> and \<^verbatim>\<open>SpanID().String()\<close> return.
\<close>

record ReadOnlySpan =
  Name :: string
  Attributes :: "KeyValue list"
  TraceID :: string
  SpanID :: string

record APIServerSpanExporter =
  traceDict :: TraceStore

definition NewAPIServerSpanExporter :: APIServerSpanExporter where
  "NewAPIServerSpanExporter = \<lparr>traceDict = Map.empty\<rparr>"

definition GetTraceDict :: "APIServerSpanExporter \<Rightarrow> TraceStore" where
  "GetTraceDict s = traceDict s"

text \<open>\<^verbatim>\<open>strings.HasPrefix(s, prefix)\<close>.\<close>

definition HasPrefix :: "string \<Rightarrow> string \<Rightarrow> bool" where
  "HasPrefix s pre = (length s \<ge> length pre \<and> take (length pre) s = pre)"

text \<open>The name test of line 47.\<close>

definition keptName :: "string \<Rightarrow> bool" where
  "keptName n = (n = ''call_llm'' \<or> n = ''send_data'' \<or> HasPrefix n ''execute_tool'')"

text \<open>
  Lines 48 to 55: the flat map built for one span. The inner loop writes the attributes in
  order, so a later attribute with the same key replaces an earlier one, and the two
  identifiers are written last.
\<close>

fun putAttributes :: "KeyValue list \<Rightarrow> (string \<rightharpoonup> string) \<Rightarrow> (string \<rightharpoonup> string)" where
  "putAttributes [] attributes = attributes"
| "putAttributes (a # as) attributes = putAttributes as (attributes(Key a \<mapsto> AsString (Value a)))"

definition spanAttributes :: "ReadOnlySpan \<Rightarrow> (string \<rightharpoonup> string)" where
  "spanAttributes span =
     (putAttributes (Attributes span) Map.empty)
       (''trace_id'' \<mapsto> TraceID span, ''span_id'' \<mapsto> SpanID span)"

text \<open>The body of the loop of \<^verbatim>\<open>ExportSpans\<close> for one span, on the store.\<close>

definition exportSpan :: "TraceStore \<Rightarrow> ReadOnlySpan \<Rightarrow> TraceStore" where
  "exportSpan store span =
     (if keptName (Name span) then
        (let attributes = spanAttributes span in
         case attributes ''gcp.vertex.agent.event_id'' of
           Some eventID \<Rightarrow> store(eventID \<mapsto> attributes)
         | None \<Rightarrow> store)
      else store)"

fun exportLoop :: "TraceStore \<Rightarrow> ReadOnlySpan list \<Rightarrow> TraceStore" where
  "exportLoop store [] = store"
| "exportLoop store (span # spans) = exportLoop (exportSpan store span) spans"

text \<open>\<^verbatim>\<open>ExportSpans\<close> returns the exporter as the loop left it and the error \<^verbatim>\<open>nil\<close>.\<close>

definition ExportSpans ::
  "APIServerSpanExporter \<Rightarrow> ReadOnlySpan list \<Rightarrow> APIServerSpanExporter \<times> error option" where
  "ExportSpans s spans = (s\<lparr>traceDict := exportLoop (traceDict s) spans\<rparr>, None)"

definition Shutdown :: "APIServerSpanExporter \<Rightarrow> APIServerSpanExporter \<times> error option" where
  "Shutdown s = (s, None)"

text \<open>A sequence of export batches on one exporter, each batch on what the last one left.\<close>

fun exportBatches :: "APIServerSpanExporter \<Rightarrow> ReadOnlySpan list list \<Rightarrow> APIServerSpanExporter" where
  "exportBatches s [] = s"
| "exportBatches s (batch # batches) = exportBatches (fst (ExportSpans s batch)) batches"

section \<open>The span registry (internal/telemetry/telemetry.go)\<close>

text \<open>
  The package's variables, as one state: the \<^verbatim>\<open>sync.Once\<close> (whether it has run), the
  holder of the local tracer provider and the list of registered processors. The
  processors are opaque, of a type \<open>'p\<close>. The tracer provider of the tracing library is
  the list of the processors registered with it, in the order of the calls of
  \<^verbatim>\<open>RegisterSpanProcessor\<close>. The calls are taken one after the other; the lock only
  matters between threads.
\<close>

record 'p TracerProvider =
  processors :: "'p list"

definition NewTracerProvider :: "'p TracerProvider" where
  "NewTracerProvider = \<lparr>processors = []\<rparr>"

definition RegisterSpanProcessor :: "'p \<Rightarrow> 'p TracerProvider \<Rightarrow> 'p TracerProvider" where
  "RegisterSpanProcessor processor traceProvider =
     traceProvider\<lparr>processors := processors traceProvider @ [processor]\<rparr>"

record 'p tracerProviderHolder =
  tp :: "'p TracerProvider option"

record 'p tracerProviderConfig =
  spanProcessors :: "'p list"

record 'p globals =
  once :: bool
  localTracer :: "'p tracerProviderHolder"
  localTracerConfig :: "'p tracerProviderConfig"

definition initial :: "'p globals" where
  "initial = \<lparr>once = False, localTracer = \<lparr>tp = None\<rparr>,
              localTracerConfig = \<lparr>spanProcessors = []\<rparr>\<rparr>"

definition systemName :: string where "systemName = ''gcp.vertex.agent''"
definition genAiOperationName :: string where "genAiOperationName = ''gen_ai.operation.name''"
definition genAiToolDescription :: string where "genAiToolDescription = ''gen_ai.tool.description''"
definition genAiToolName :: string where "genAiToolName = ''gen_ai.tool.name''"
definition genAiToolCallID :: string where "genAiToolCallID = ''gen_ai.tool.call.id''"

definition AddSpanProcessor :: "'p \<Rightarrow> 'p globals \<Rightarrow> 'p globals" where
  "AddSpanProcessor processor g =
     g\<lparr>localTracerConfig :=
         \<lparr>spanProcessors = spanProcessors (localTracerConfig g) @ [processor]\<rparr>\<rparr>"

definition RegisterTelemetry :: "'p globals \<Rightarrow> 'p globals" where
  "RegisterTelemetry g =
     (if once g then g
      else
        (let traceProvider =
               fold RegisterSpanProcessor (spanProcessors (localTracerConfig g)) NewTracerProvider
         in g\<lparr>once := True, localTracer := \<lparr>tp = Some traceProvider\<rparr>\<rparr>))"

text \<open>
  A tracer is the provider that made it and the name given. The global provider
  (\<^verbatim>\<open>otel.GetTracerProvider()\<close>) belongs to the surrounding process and is a parameter.
\<close>

datatype ('p, 'g) provider = Local "'p TracerProvider" | Global 'g

type_synonym ('p, 'g) Tracer = "('p, 'g) provider \<times> string"

definition getTracers :: "'g \<Rightarrow> 'p globals \<Rightarrow> error + (('p, 'g) Tracer list \<times> 'p globals)" where
  "getTracers global g =
     (let g' = (if tp (localTracer g) = None then RegisterTelemetry g else g) in
      case tp (localTracer g') of
        None \<Rightarrow> Inl NilPointerDereference
      | Some p \<Rightarrow> Inr ([(Local p, systemName), (Global global, systemName)], g'))"

text \<open>What a program can do to the registry, and a run of such calls in order.\<close>

datatype 'p call = AddSpanProcessor_call 'p | RegisterTelemetry_call | getTracers_call

fun run :: "'g \<Rightarrow> 'p call list \<Rightarrow> 'p globals \<Rightarrow> error + 'p globals" where
  "run global [] g = Inr g"
| "run global (AddSpanProcessor_call processor # calls) g =
     run global calls (AddSpanProcessor processor g)"
| "run global (RegisterTelemetry_call # calls) g = run global calls (RegisterTelemetry g)"
| "run global (getTracers_call # calls) g =
     (case getTracers global g of
        Inl e \<Rightarrow> Inl e
      | Inr (tracers, g') \<Rightarrow> run global calls g')"

section \<open>The span annotators (internal/telemetry/telemetry.go)\<close>

text \<open>
  A span is the object behind the \<^verbatim>\<open>trace.Span\<close> interface. The annotators only call
  \<^verbatim>\<open>SetAttributes\<close> and \<^verbatim>\<open>End\<close> on it, so a span is the record of these calls:
  the attribute list of every \<^verbatim>\<open>SetAttributes\<close> call, in order, and the number of
  \<^verbatim>\<open>End\<close> calls.
\<close>

record Span =
  SetAttributes_calls :: "KeyValue list list"
  End_calls :: nat

definition SetAttributes :: "KeyValue list \<Rightarrow> Span \<Rightarrow> Span" where
  "SetAttributes kv span = span\<lparr>SetAttributes_calls := SetAttributes_calls span @ [kv]\<rparr>"

definition End :: "Span \<Rightarrow> Span" where
  "End span = span\<lparr>End_calls := Suc (End_calls span)\<rparr>"

record GenerateContentConfig =
  TopP :: "float32 option"
  MaxOutputTokens :: "32 word"

record LLMRequest =
  Model :: string
  Config :: GenerateContentConfig
  Contents :: "Content list"

text \<open>The map with the keys "config", "model" and "content" that \<^verbatim>\<open>llmRequestToTrace\<close> builds.\<close>

record RequestTrace =
  config :: GenerateContentConfig
  model :: string
  content :: "Content list"

text \<open>
  The values the source hands to \<^verbatim>\<open>safeSerialize\<close> as an \<^verbatim>\<open>any\<close>, by their
  dynamic type. \<^verbatim>\<open>json.Marshal\<close> is the standard library's and is a parameter
  \<open>marshal\<close>: it returns an error (\<open>Inl\<close>) or the encoding.
\<close>

datatype any =
  MapAny "any_map option"
  | EventAny "Event option"
  | LLMResponseAny "LLMResponse option"
  | RequestTraceAny RequestTrace

definition safeSerialize :: "(any \<Rightarrow> 'e + string) \<Rightarrow> any \<Rightarrow> string" where
  "safeSerialize marshal obj =
     (case marshal obj of
        Inl err \<Rightarrow> ''<not serializable>''
      | Inr dump \<Rightarrow> dump)"

definition llmRequestToTrace :: "LLMRequest \<Rightarrow> RequestTrace" where
  "llmRequestToTrace llmRequest =
     \<lparr>config = Config llmRequest,
      model = Model llmRequest,
      content =
        map (\<lambda>content.
               \<lparr>Role = Role content,
                Parts = Some (filter (\<lambda>part. InlineData part = None) (elements (Parts content)))\<rparr>)
            (Contents llmRequest)\<rparr>"

text \<open>
  A loop over the spans whose body may panic: the panic ends the call. In the two
  annotators that can panic, the expression that panics depends on the event only and is
  evaluated before the body's \<^verbatim>\<open>SetAttributes\<close>, so a panic is one of the first
  iteration and no span has been touched then.
\<close>

fun forEach :: "(Span \<Rightarrow> error + Span) \<Rightarrow> Span list \<Rightarrow> error + Span list" where
  "forEach body [] = Inr []"
| "forEach body (span # spans) =
     (case body span of
        Inl e \<Rightarrow> Inl e
      | Inr span' \<Rightarrow>
          (case forEach body spans of
             Inl e \<Rightarrow> Inl e
           | Inr spans' \<Rightarrow> Inr (span' # spans')))"

definition TraceMergedToolCalls ::
  "(any \<Rightarrow> 'e + string) \<Rightarrow> Span list \<Rightarrow> Event option \<Rightarrow> Span list" where
  "TraceMergedToolCalls marshal spans fnResponseEvent =
     (case fnResponseEvent of
        None \<Rightarrow> spans
      | Some ev \<Rightarrow>
          map (\<lambda>span.
                 (let attributes =
                    [attribute_String genAiOperationName ''execute_tool'',
                     attribute_String genAiToolName ''(merged tools)'',
                     attribute_String genAiToolDescription ''(merged tools)'',
                     attribute_String ''gcp.vertex.agent.llm_request'' ''{}'',
                     attribute_String ''gcp.vertex.agent.llm_request'' ''{}'',
                     attribute_String ''gcp.vertex.agent.tool_call_args'' ''N/A'',
                     attribute_String ''gcp.vertex.agent.event_id'' (ID ev),
                     attribute_String ''gcp.vertex.agent.tool_response''
                       (safeSerialize marshal (EventAny fnResponseEvent))]
                  in End (SetAttributes attributes span)))
              spans)"

record Tool =
  tool_Name :: string
  tool_Description :: string

definition TraceToolCall ::
  "(any \<Rightarrow> 'e + string) \<Rightarrow> Span list \<Rightarrow> Tool \<Rightarrow> any_map option \<Rightarrow> Event option \<Rightarrow>
   error + Span list" where
  "TraceToolCall marshal spans tool fnArgs fnResponseEvent =
     (case fnResponseEvent of
        None \<Rightarrow> Inr spans
      | Some ev \<Rightarrow>
          forEach (\<lambda>span.
            (let attributes =
               [attribute_String genAiOperationName ''execute_tool'',
                attribute_String genAiToolName (tool_Name tool),
                attribute_String genAiToolDescription (tool_Description tool),
                attribute_String ''gcp.vertex.agent.llm_request'' ''{}'',
                attribute_String ''gcp.vertex.agent.llm_request'' ''{}'',
                attribute_String ''gcp.vertex.agent.tool_call_args''
                  (safeSerialize marshal (MapAny fnArgs)),
                attribute_String ''gcp.vertex.agent.event_id'' (ID ev)];
                 toolCallID = ''<not specified>'';
                 toolResponse = ''<not specified>''
             in
             case LLMResponse ev of
               None \<Rightarrow> Inl NilPointerDereference
             | Some r \<Rightarrow>
                 (case Content r of
                    None \<Rightarrow> Inl NilPointerDereference
                  | Some c \<Rightarrow>
                      (let responseParts = Parts c;
                           (toolCallID, toolResponse) =
                             (case elements responseParts of
                                [] \<Rightarrow> (toolCallID, toolResponse)
                              | part # rest \<Rightarrow>
                                  (case FunctionResponse part of
                                     None \<Rightarrow> (toolCallID, toolResponse)
                                   | Some functionResponse \<Rightarrow>
                                       (if resp_ID functionResponse \<noteq> []
                                          then resp_ID functionResponse else toolCallID,
                                        case Response functionResponse of
                                          Some m \<Rightarrow> safeSerialize marshal (MapAny (Some m))
                                        | None \<Rightarrow> toolResponse)));
                           attributes = attributes @ [attribute_String genAiToolCallID toolCallID];
                           attributes = attributes @
                             [attribute_String ''gcp.vertex.agent.tool_response'' toolResponse]
                       in Inr (End (SetAttributes attributes span))))))
            spans)"

record InvocationContext =
  Session_ID :: string

definition TraceLLMCall ::
  "(any \<Rightarrow> 'e + string) \<Rightarrow> Span list \<Rightarrow> InvocationContext \<Rightarrow> LLMRequest \<Rightarrow> Event option \<Rightarrow>
   error + Span list" where
  "TraceLLMCall marshal spans agentCtx llmRequest event =
     forEach (\<lambda>span.
       (case event of
          None \<Rightarrow> Inl NilPointerDereference
        | Some ev \<Rightarrow>
            (let attributes =
               [attribute_String ''gen_ai.system'' systemName,
                attribute_String ''gen_ai.request.model'' (Model llmRequest),
                attribute_String ''gcp.vertex.agent.invocation_id'' (InvocationID ev),
                attribute_String ''gcp.vertex.agent.session_id'' (Session_ID agentCtx),
                attribute_String ''gcp.vertex.agent.event_id'' (ID ev),
                attribute_String ''gcp.vertex.agent.llm_request''
                  (safeSerialize marshal (RequestTraceAny (llmRequestToTrace llmRequest))),
                attribute_String ''gcp.vertex.agent.llm_response''
                  (safeSerialize marshal (LLMResponseAny (LLMResponse ev)))];
                 attributes =
                   (case TopP (Config llmRequest) of
                      Some t \<Rightarrow> attributes @ [attribute_Float64 ''gen_ai.request.top_p'' t]
                    | None \<Rightarrow> attributes);
                 attributes =
                   (if MaxOutputTokens (Config llmRequest) \<noteq> 0
                    then attributes @
                      [attribute_Int ''gen_ai.request.max_tokens''
                         (scast (MaxOutputTokens (Config llmRequest)))]
                    else attributes)
             in Inr (End (SetAttributes attributes span)))))
       spans"

section \<open>Auxiliary notions for the statements\<close>

text \<open>
  The parts an event carries: those of its response's content, and none when the response,
  the content or the slice of parts is \<^verbatim>\<open>nil\<close>.
\<close>

definition eventParts :: "Event \<Rightarrow> Part list" where
  "eventParts event =
     (case LLMResponse event of
        None \<Rightarrow> []
      | Some r \<Rightarrow> (case Content r of None \<Rightarrow> [] | Some c \<Rightarrow> elements (Parts c)))"

text \<open>
  The nine attributes of a tool call span, by the tool call id and the tool response that
  the last two carry.
\<close>

definition toolCallAttributes ::
  "(any \<Rightarrow> 'e + string) \<Rightarrow> Tool \<Rightarrow> any_map option \<Rightarrow> Event \<Rightarrow> string \<Rightarrow> string \<Rightarrow>
   KeyValue list" where
  "toolCallAttributes marshal tool fnArgs ev toolCallID toolResponse =
     [attribute_String ''gen_ai.operation.name'' ''execute_tool'',
      attribute_String ''gen_ai.tool.name'' (tool_Name tool),
      attribute_String ''gen_ai.tool.description'' (tool_Description tool),
      attribute_String ''gcp.vertex.agent.llm_request'' ''{}'',
      attribute_String ''gcp.vertex.agent.llm_request'' ''{}'',
      attribute_String ''gcp.vertex.agent.tool_call_args'' (safeSerialize marshal (MapAny fnArgs)),
      attribute_String ''gcp.vertex.agent.event_id'' (ID ev),
      attribute_String ''gen_ai.tool.call.id'' toolCallID,
      attribute_String ''gcp.vertex.agent.tool_response'' toolResponse]"

section \<open>Properties of the handlers and of the serialization helper\<close>

text \<open>
  C9. \<^verbatim>\<open>safeSerialize\<close> returns a string for every value and lets no failure out: when
  the marshalling succeeds it returns the encoding, and when it fails it returns the
  sentinel "<not serializable>".
\<close>

theorem safeSerialize_degrades:
  "(marshal obj = Inr dump \<longrightarrow> safeSerialize marshal obj = dump) \<and>
   (marshal obj = Inl err \<longrightarrow> safeSerialize marshal obj = ''<not serializable>'')"
  by (simp add: safeSerialize_def)

theorem safeSerialize_degrades_witness:
  "safeSerialize (\<lambda>obj. case obj of MapAny None \<Rightarrow> Inr ''null'' | _ \<Rightarrow> Inl ()) (MapAny None)
     = ''null'' \<and>
   safeSerialize (\<lambda>obj. case obj of MapAny None \<Rightarrow> Inr ''null'' | _ \<Rightarrow> Inl ()) (EventAny None)
     = ''<not serializable>''"
  using
    safeSerialize_degrades [of "\<lambda>obj. case obj of MapAny None \<Rightarrow> Inr ''null'' | _ \<Rightarrow> Inl ()"
      "MapAny None" "''null''" "()"]
    safeSerialize_degrades [of "\<lambda>obj. case obj of MapAny None \<Rightarrow> Inr ''null'' | _ \<Rightarrow> Inl ()"
      "EventAny None" "''null''" "()"]
  by simp

text \<open>
  C8. The trace endpoint answers 400 with the message "event_id parameter is required"
  when the route's \<^verbatim>\<open>event_id\<close> is missing or empty, 404 when it is not empty and the
  trace store has no entry for it, and 200 with the stored attribute map when it has one.
\<close>

theorem TraceDict_statuses:
  "((params ''event_id'' = None \<or> params ''event_id'' = Some []) \<longrightarrow>
      TraceDict store params = http_Error ''event_id parameter is required'' 400) \<and>
   (params ''event_id'' = Some eventID \<and> eventID \<noteq> [] \<and> store eventID = None \<longrightarrow>
      TraceDict store params = http_Error (''event not found: '' @ eventID) 404) \<and>
   (params ''event_id'' = Some eventID \<and> eventID \<noteq> [] \<and> store eventID = Some eventDict \<longrightarrow>
      TraceDict store params = EncodeJSONResponse eventDict 200)"
  by (auto simp: TraceDict_def index_def StatusBadRequest_def StatusNotFound_def StatusOK_def)

theorem TraceDict_statuses_witness:
  "TraceDict [''e1'' \<mapsto> [''foo'' \<mapsto> ''bar'']] [''event_id'' \<mapsto> []]
     = http_Error ''event_id parameter is required'' 400 \<and>
   TraceDict [''e1'' \<mapsto> [''foo'' \<mapsto> ''bar'']] [''event_id'' \<mapsto> ''e2'']
     = http_Error ''event not found: e2'' 404 \<and>
   TraceDict [''e1'' \<mapsto> [''foo'' \<mapsto> ''bar'']] [''event_id'' \<mapsto> ''e1'']
     = EncodeJSONResponse [''foo'' \<mapsto> ''bar''] 200"
  using
    TraceDict_statuses [of "[''event_id'' \<mapsto> []]" "[''e1'' \<mapsto> [''foo'' \<mapsto> ''bar'']]"
      "''e2''" "Map.empty"]
    TraceDict_statuses [of "[''event_id'' \<mapsto> ''e2'']" "[''e1'' \<mapsto> [''foo'' \<mapsto> ''bar'']]"
      "''e2''" "Map.empty"]
    TraceDict_statuses [of "[''event_id'' \<mapsto> ''e1'']" "[''e1'' \<mapsto> [''foo'' \<mapsto> ''bar'']]"
      "''e1''" "[''foo'' \<mapsto> ''bar'']"]
  by simp

section \<open>The event graph correlator\<close>

text \<open>The calls and responses that the two collectors return are those of the event's parts.\<close>


lemma elements_functionalCalls:
  "elements (functionalCalls event) = List.map_filter FunctionCall (eventParts event)"
  by (simp add: functionalCalls_def eventParts_def elements_def
      split: option.splits)

lemma len_functionalCalls:
  "len (functionalCalls event) = length (List.map_filter FunctionCall (eventParts event))"
  by (simp add: functionalCalls_def eventParts_def elements_def len_def
      split: option.splits)

lemma elements_functionalResponses:
  "elements (functionalResponses event) = List.map_filter FunctionResponse (eventParts event)"
  by (simp add: functionalResponses_def eventParts_def elements_def
      split: option.splits)

lemma len_functionalResponses:
  "len (functionalResponses event)
     = length (List.map_filter FunctionResponse (eventParts event))"
  by (simp add: functionalResponses_def eventParts_def elements_def len_def
      split: option.splits)

lemma highlightedPairs_cases:
  "highlightedPairs event =
     (if List.map_filter FunctionCall (eventParts event) \<noteq> [] then
        map (\<lambda>f. [call_Name f, Author event])
          (filter (\<lambda>f. call_Name f \<noteq> []) (List.map_filter FunctionCall (eventParts event)))
      else if List.map_filter FunctionResponse (eventParts event) \<noteq> [] then
        map (\<lambda>f. [resp_Name f, Author event])
          (filter (\<lambda>f. resp_Name f \<noteq> []) (List.map_filter FunctionResponse (eventParts event)))
      else [[Author event, Author event]])"
  by (simp add: highlightedPairs_def Let_def elements_functionalCalls len_functionalCalls
      elements_functionalResponses len_functionalResponses)

text \<open>
  C3. When the parts of an event hold N function calls with a non-empty name, N at least 1,
  the highlight pairs are exactly the N pairs of such a call's name and the event's author,
  in the order of the calls. The function responses of the event do not occur in the
  result.
\<close>

theorem highlight_calls:
  assumes "named = filter (\<lambda>f. call_Name f \<noteq> []) (List.map_filter FunctionCall (eventParts event))"
    and "length named \<ge> 1"
  shows "highlightedPairs event = map (\<lambda>f. [call_Name f, Author event]) named \<and>
         length (highlightedPairs event) = length named"
proof -
  from assms have "List.map_filter FunctionCall (eventParts event) \<noteq> []"
    by auto
  with assms(1) show ?thesis
    by (simp add: highlightedPairs_cases)
qed

theorem highlight_calls_witness:
  "highlightedPairs
     \<lparr>ID = ''e1'', InvocationID = ''i1'', Author = ''agent_a'',
      LLMResponse = Some \<lparr>Content = Some \<lparr>Role = ''model'', Parts = Some
        [\<lparr>InlineData = None, FunctionCall = Some \<lparr>call_Name = ''search''\<rparr>,
          FunctionResponse = None\<rparr>,
         \<lparr>InlineData = None, FunctionCall = None,
          FunctionResponse = Some \<lparr>resp_ID = ''r1'', resp_Name = ''lookup'', Response = None\<rparr>\<rparr>,
         \<lparr>InlineData = None, FunctionCall = Some \<lparr>call_Name = []\<rparr>,
          FunctionResponse = None\<rparr>,
         \<lparr>InlineData = None, FunctionCall = Some \<lparr>call_Name = ''fetch''\<rparr>,
          FunctionResponse = None\<rparr>]\<rparr>\<rparr>\<rparr>
   = [[''search'', ''agent_a''], [''fetch'', ''agent_a'']]"
  using highlight_calls [of "[\<lparr>call_Name = ''search''\<rparr>, \<lparr>call_Name = ''fetch''\<rparr>]"
     "\<lparr>ID = ''e1'', InvocationID = ''i1'', Author = ''agent_a'',
      LLMResponse = Some \<lparr>Content = Some \<lparr>Role = ''model'', Parts = Some
        [\<lparr>InlineData = None, FunctionCall = Some \<lparr>call_Name = ''search''\<rparr>,
          FunctionResponse = None\<rparr>,
         \<lparr>InlineData = None, FunctionCall = None,
          FunctionResponse = Some \<lparr>resp_ID = ''r1'', resp_Name = ''lookup'', Response = None\<rparr>\<rparr>,
         \<lparr>InlineData = None, FunctionCall = Some \<lparr>call_Name = []\<rparr>,
          FunctionResponse = None\<rparr>,
         \<lparr>InlineData = None, FunctionCall = Some \<lparr>call_Name = ''fetch''\<rparr>,
          FunctionResponse = None\<rparr>]\<rparr>\<rparr>\<rparr>"]
  by (simp add: eventParts_def elements_def)

text \<open>
  C4. For an event without function calls: when its parts hold M function responses with a
  non-empty name, M at least 1, the highlight pairs are exactly the M pairs of such a
  response's name and the event's author, in the order of the responses; when it has no
  function response either, the result is the single pair of the author with itself.
\<close>

theorem highlight_responses_or_self:
  "(List.map_filter FunctionCall (eventParts event) = [] \<and>
    named = filter (\<lambda>f. resp_Name f \<noteq> []) (List.map_filter FunctionResponse (eventParts event)) \<and>
    length named \<ge> 1 \<longrightarrow>
      highlightedPairs event = map (\<lambda>f. [resp_Name f, Author event]) named \<and>
      length (highlightedPairs event) = length named) \<and>
   (List.map_filter FunctionCall (eventParts event) = [] \<and>
    List.map_filter FunctionResponse (eventParts event) = [] \<longrightarrow>
      highlightedPairs event = [[Author event, Author event]])"
proof (intro conjI impI)
  assume a: "List.map_filter FunctionCall (eventParts event) = [] \<and>
    named = filter (\<lambda>f. resp_Name f \<noteq> []) (List.map_filter FunctionResponse (eventParts event)) \<and>
    length named \<ge> 1"
  then have "List.map_filter FunctionResponse (eventParts event) \<noteq> []"
    by auto
  with a show "highlightedPairs event = map (\<lambda>f. [resp_Name f, Author event]) named"
    by (simp add: highlightedPairs_cases)
  then show "length (highlightedPairs event) = length named"
    by simp
next
  assume "List.map_filter FunctionCall (eventParts event) = [] \<and>
    List.map_filter FunctionResponse (eventParts event) = []"
  then show "highlightedPairs event = [[Author event, Author event]]"
    by (simp add: highlightedPairs_cases)
qed

theorem highlight_responses_or_self_witness:
  "highlightedPairs
     \<lparr>ID = ''e2'', InvocationID = ''i1'', Author = ''agent_a'',
      LLMResponse = Some \<lparr>Content = Some \<lparr>Role = ''user'', Parts = Some
        [\<lparr>InlineData = None, FunctionCall = None,
          FunctionResponse = Some \<lparr>resp_ID = ''r1'', resp_Name = ''search'', Response = None\<rparr>\<rparr>,
         \<lparr>InlineData = None, FunctionCall = None,
          FunctionResponse = Some \<lparr>resp_ID = ''r2'', resp_Name = [], Response = None\<rparr>\<rparr>]\<rparr>\<rparr>\<rparr>
   = [[''search'', ''agent_a'']] \<and>
   highlightedPairs
     \<lparr>ID = ''e3'', InvocationID = ''i1'', Author = ''agent_b'', LLMResponse = None\<rparr>
   = [[''agent_b'', ''agent_b'']]"
  using highlight_responses_or_self [of 
     "\<lparr>ID = ''e2'', InvocationID = ''i1'', Author = ''agent_a'',
      LLMResponse = Some \<lparr>Content = Some \<lparr>Role = ''user'', Parts = Some
        [\<lparr>InlineData = None, FunctionCall = None,
          FunctionResponse = Some \<lparr>resp_ID = ''r1'', resp_Name = ''search'', Response = None\<rparr>\<rparr>,
         \<lparr>InlineData = None, FunctionCall = None,
          FunctionResponse = Some \<lparr>resp_ID = ''r2'', resp_Name = [], Response = None\<rparr>\<rparr>]\<rparr>\<rparr>\<rparr>"
     "[\<lparr>resp_ID = ''r1'', resp_Name = ''search'', Response = None\<rparr>]"]
   highlight_responses_or_self [of 
     "\<lparr>ID = ''e3'', InvocationID = ''i1'', Author = ''agent_b'', LLMResponse = None\<rparr>" "[]"]
  by (simp add: eventParts_def elements_def)

section \<open>The span registry\<close>

lemma fold_RegisterSpanProcessor:
  "fold RegisterSpanProcessor ps traceProvider
     = traceProvider\<lparr>processors := processors traceProvider @ ps\<rparr>"
  by (induction ps arbitrary: traceProvider) (simp_all add: RegisterSpanProcessor_def)

lemma run_AddSpanProcessor_calls:
  "run global (map AddSpanProcessor_call ps @ calls) g
     = run global calls (fold AddSpanProcessor ps g)"
  by (induction ps arbitrary: g) simp_all

lemma fold_AddSpanProcessor:
  "spanProcessors (localTracerConfig (fold AddSpanProcessor ps g))
     = spanProcessors (localTracerConfig g) @ ps \<and>
   once (fold AddSpanProcessor ps g) = once g \<and>
   localTracer (fold AddSpanProcessor ps g) = localTracer g"
  by (induction ps arbitrary: g) (simp_all add: AddSpanProcessor_def)

text \<open>Once the initializer has run, no call changes the provider or what is attached to it.\<close>

lemma run_after_initialization:
  "once g \<Longrightarrow> tp (localTracer g) = Some traceProvider \<Longrightarrow>
   \<exists>g'. run global calls g = Inr g' \<and> once g' \<and> tp (localTracer g') = Some traceProvider"
proof (induction calls arbitrary: g)
  case Nil
  then show ?case by simp
next
  case (Cons c calls)
  show ?case
  proof (cases c)
    case (AddSpanProcessor_call processor)
    with Cons.prems Cons.IH [of "AddSpanProcessor processor g"] show ?thesis
      by (simp add: AddSpanProcessor_def)
  next
    case RegisterTelemetry_call
    with Cons.prems Cons.IH [of g] show ?thesis
      by (simp add: RegisterTelemetry_def)
  next
    case getTracers_call
    with Cons.prems Cons.IH [of g] show ?thesis
      by (simp add: getTracers_def)
  qed
qed

lemma RegisterTelemetry_first:
  "\<not> once g \<Longrightarrow>
   once (RegisterTelemetry g) \<and>
   tp (localTracer (RegisterTelemetry g))
     = Some \<lparr>processors = spanProcessors (localTracerConfig g)\<rparr>"
  by (simp add: RegisterTelemetry_def fold_RegisterSpanProcessor NewTracerProvider_def)

text \<open>
  C2. After any number of \<^verbatim>\<open>AddSpanProcessor\<close> calls and then the first initialization
  of the tracers (by \<^verbatim>\<open>getTracers\<close>, or by \<^verbatim>\<open>RegisterTelemetry\<close> itself), the
  processors attached to the local tracer provider are exactly those registered before,
  in the order of their registration, and they stay so whatever is called afterwards: a
  processor registered later is never attached.
\<close>

theorem attached_are_those_registered_before:
  "(\<exists>g. run global (map AddSpanProcessor_call (ps :: 'p list) @ getTracers_call # calls) initial = Inr g \<and>
        tp (localTracer g) = Some \<lparr>processors = ps\<rparr>) \<and>
   (\<exists>g. run global (map AddSpanProcessor_call ps @ RegisterTelemetry_call # calls) initial = Inr g \<and>
        tp (localTracer g) = Some \<lparr>processors = ps\<rparr>)"
proof -
  define g0 where "g0 = fold AddSpanProcessor ps (initial :: 'p globals)"
  have fresh: "\<not> once g0" "tp (localTracer g0) = None" "spanProcessors (localTracerConfig g0) = ps"
    by (simp_all add: g0_def fold_AddSpanProcessor) (simp_all add: initial_def)
  from RegisterTelemetry_first [OF fresh(1)] fresh(3)
  have sealed: "once (RegisterTelemetry g0)"
    "tp (localTracer (RegisterTelemetry g0)) = Some \<lparr>processors = ps\<rparr>"
    by simp_all
  from run_after_initialization [OF sealed, of global calls]
  obtain g where g: "run global calls (RegisterTelemetry g0) = Inr g"
    "tp (localTracer g) = Some \<lparr>processors = ps\<rparr>"
    by blast
  have "run global (map AddSpanProcessor_call ps @ getTracers_call # calls) initial
          = run global calls (RegisterTelemetry g0)"
    using fresh(2) sealed(2)
    by (simp add: run_AddSpanProcessor_calls g0_def [symmetric] getTracers_def)
  moreover
  have "run global (map AddSpanProcessor_call ps @ RegisterTelemetry_call # calls) initial
          = run global calls (RegisterTelemetry g0)"
    by (simp add: run_AddSpanProcessor_calls g0_def [symmetric])
  ultimately show ?thesis
    using g by simp
qed

theorem attached_are_those_registered_before_witness:
  "\<exists>g. run () [AddSpanProcessor_call (1::nat), getTracers_call, AddSpanProcessor_call 2,
                  getTracers_call] initial = Inr g \<and>
       tp (localTracer g) = Some \<lparr>processors = [1]\<rparr>"
  using attached_are_those_registered_before
    [of "()" "[1::nat]" "[AddSpanProcessor_call 2, getTracers_call]"]
  by simp

text \<open>The same run, computed: the second processor is in the list and not on the provider.\<close>

lemma registry_scenario:
  "run global [AddSpanProcessor_call (1::nat), getTracers_call, AddSpanProcessor_call 2,
               getTracers_call] initial
   = Inr \<lparr>once = True, localTracer = \<lparr>tp = Some \<lparr>processors = [1]\<rparr>\<rparr>,
          localTracerConfig = \<lparr>spanProcessors = [1, 2]\<rparr>\<rparr>"
  by (simp add: initial_def AddSpanProcessor_def getTracers_def RegisterTelemetry_def
      NewTracerProvider_def RegisterSpanProcessor_def)

section \<open>The span annotators\<close>

lemma forEach_total:
  "(\<And>span. body span = Inr (f span)) \<Longrightarrow> forEach body spans = Inr (map f spans)"
  by (induction spans) simp_all

text \<open>
  C1. With a \<^verbatim>\<open>nil\<close> result event an annotator should do nothing: attach nothing,
  close no span and return. \<^verbatim>\<open>TraceMergedToolCalls\<close> and \<^verbatim>\<open>TraceToolCall\<close> do so.
  \<^verbatim>\<open>TraceLLMCall\<close> has no such test: given at least one span it reads
  \<^verbatim>\<open>event.InvocationID\<close> through the \<^verbatim>\<open>nil\<close> pointer and panics; only on an empty
  span list does it return.
\<close>

theorem nil_event_annotators:
  "TraceMergedToolCalls marshal spans None = spans \<and>
   TraceToolCall marshal spans tool fnArgs None = Inr spans \<and>
   TraceLLMCall marshal [] agentCtx llmRequest None = Inr [] \<and>
   TraceLLMCall marshal (span # spans) agentCtx llmRequest None = Inl NilPointerDereference"
  by (simp add: TraceMergedToolCalls_def TraceToolCall_def TraceLLMCall_def)

text \<open>
  C7. For a result event that is not \<^verbatim>\<open>nil\<close>, \<^verbatim>\<open>TraceToolCall\<close> should attach the
  tool call id and the tool response of the first response part, with the sentinel
  "<not specified>" for what is absent. On an event whose response has no content, or that
  has no response, and at least one span, the source reads
  \<^verbatim>\<open>fnResponseEvent.LLMResponse.Content.Parts\<close> through a \<^verbatim>\<open>nil\<close> pointer and panics,
  where \<^verbatim>\<open>functionalResponses\<close> tests both pointers of the same event.
\<close>

theorem TraceToolCall_nil_content_panics:
  "TraceToolCall marshal (span # spans) tool fnArgs
     (Some \<lparr>ID = eventID, InvocationID = invocationID, Author = author,
            LLMResponse = Some \<lparr>Content = None\<rparr>\<rparr>)
     = Inl NilPointerDereference \<and>
   TraceToolCall marshal (span # spans) tool fnArgs
     (Some \<lparr>ID = eventID, InvocationID = invocationID, Author = author, LLMResponse = None\<rparr>)
     = Inl NilPointerDereference"
  by (simp add: TraceToolCall_def)

text \<open>
  When the response and its content are present, every span gets the nine attributes and is
  closed; the id is that of the first part's function response, the response its
  serialized \<^verbatim>\<open>Response\<close>, and each is the sentinel when there is no part, no function
  response in the first part, an empty id or no \<^verbatim>\<open>Response\<close>.
\<close>

lemma TraceToolCall_with_content:
  assumes "LLMResponse ev = Some r" and "Content r = Some c"
  shows "TraceToolCall marshal spans tool fnArgs (Some ev) =
    Inr (map (\<lambda>span. End (SetAttributes
      (toolCallAttributes marshal tool fnArgs ev
        (case elements (Parts c) of
           [] \<Rightarrow> ''<not specified>''
         | part # rest \<Rightarrow>
             (case FunctionResponse part of
                None \<Rightarrow> ''<not specified>''
              | Some functionResponse \<Rightarrow>
                  if resp_ID functionResponse = [] then ''<not specified>''
                  else resp_ID functionResponse))
        (case elements (Parts c) of
           [] \<Rightarrow> ''<not specified>''
         | part # rest \<Rightarrow>
             (case FunctionResponse part of
                None \<Rightarrow> ''<not specified>''
              | Some functionResponse \<Rightarrow>
                  (case Response functionResponse of
                     None \<Rightarrow> ''<not specified>''
                   | Some m \<Rightarrow> safeSerialize marshal (MapAny (Some m))))))
      span)) spans)"
  unfolding TraceToolCall_def option.case
  by (rule forEach_total)
    (simp add: assms Let_def toolCallAttributes_def genAiOperationName_def genAiToolName_def
      genAiToolDescription_def genAiToolCallID_def split: list.splits option.splits)

text \<open>
  C10. For a merged tool response event that is not \<^verbatim>\<open>nil\<close>, the attribute list that
  \<^verbatim>\<open>TraceMergedToolCalls\<close> sets on each span holds the key "gcp.vertex.agent.llm_request"
  twice, both times with the value "{}", and does not hold the key
  "gcp.vertex.agent.llm_response".
\<close>

theorem merged_attributes_request_twice:
  "\<exists>attributes.
     TraceMergedToolCalls marshal spans (Some ev)
       = map (\<lambda>span. End (SetAttributes attributes span)) spans \<and>
     filter (\<lambda>kv. Key kv = ''gcp.vertex.agent.llm_request'') attributes
       = [\<lparr>Key = ''gcp.vertex.agent.llm_request'', Value = StringValue ''{}''\<rparr>,
          \<lparr>Key = ''gcp.vertex.agent.llm_request'', Value = StringValue ''{}''\<rparr>] \<and>
     filter (\<lambda>kv. Key kv = ''gcp.vertex.agent.llm_response'') attributes = []"
proof -
  define attributes where "attributes =
    [attribute_String genAiOperationName ''execute_tool'',
     attribute_String genAiToolName ''(merged tools)'',
     attribute_String genAiToolDescription ''(merged tools)'',
     attribute_String ''gcp.vertex.agent.llm_request'' ''{}'',
     attribute_String ''gcp.vertex.agent.llm_request'' ''{}'',
     attribute_String ''gcp.vertex.agent.tool_call_args'' ''N/A'',
     attribute_String ''gcp.vertex.agent.event_id'' (ID ev),
     attribute_String ''gcp.vertex.agent.tool_response''
       (safeSerialize marshal (EventAny (Some ev)))]"
  have "TraceMergedToolCalls marshal spans (Some ev)
          = map (\<lambda>span. End (SetAttributes attributes span)) spans"
    by (simp add: TraceMergedToolCalls_def attributes_def)
  moreover
  have "filter (\<lambda>kv. Key kv = ''gcp.vertex.agent.llm_request'') attributes
          = [\<lparr>Key = ''gcp.vertex.agent.llm_request'', Value = StringValue ''{}''\<rparr>,
             \<lparr>Key = ''gcp.vertex.agent.llm_request'', Value = StringValue ''{}''\<rparr>]"
    by (simp add: attributes_def attribute_String_def genAiOperationName_def
        genAiToolName_def genAiToolDescription_def)
  moreover
  have "filter (\<lambda>kv. Key kv = ''gcp.vertex.agent.llm_response'') attributes = []"
    by (simp add: attributes_def attribute_String_def genAiOperationName_def
        genAiToolName_def genAiToolDescription_def)
  ultimately show ?thesis
    by blast
qed

section \<open>The debug trace store\<close>

lemma HasPrefix_iff: "HasPrefix s pre \<longleftrightarrow> (\<exists>rest. s = pre @ rest)"
proof
  assume "HasPrefix s pre"
  then have "s = pre @ drop (length pre) s"
    by (metis HasPrefix_def append_take_drop_id)
  then show "\<exists>rest. s = pre @ rest" ..
next
  assume "\<exists>rest. s = pre @ rest"
  then show "HasPrefix s pre"
    by (auto simp: HasPrefix_def)
qed

lemma keptName_iff:
  "keptName n \<longleftrightarrow>
     n = ''call_llm'' \<or> n = ''send_data'' \<or> (\<exists>rest. n = ''execute_tool'' @ rest)"
  by (simp only: keptName_def HasPrefix_iff)

lemma putAttributes_lookup:
  "putAttributes as m k = Some v \<Longrightarrow> m k = Some v \<or> k \<in> Key ` set as"
  by (induction as arbitrary: m) (fastforce split: if_splits)+

lemma spanAttributes_identifiers:
  "spanAttributes span ''trace_id'' = Some (TraceID span) \<and>
   spanAttributes span ''span_id'' = Some (SpanID span)"
  by (simp add: spanAttributes_def)

lemma spanAttributes_event_id:
  assumes "spanAttributes span ''gcp.vertex.agent.event_id'' = Some eventID"
  shows "''gcp.vertex.agent.event_id'' \<in> Key ` set (Attributes span)"
proof -
  from assms
  have "putAttributes (Attributes span) Map.empty ''gcp.vertex.agent.event_id'' = Some eventID"
    by (simp add: spanAttributes_def)
  from putAttributes_lookup [OF this] show ?thesis
    by simp
qed

text \<open>An entry of the store after one span is an old entry or the map of that span.\<close>

lemma exportSpan_entry:
  assumes "exportSpan store span k = Some m"
  shows "store k = Some m \<or>
         (keptName (Name span) \<and> spanAttributes span ''gcp.vertex.agent.event_id'' = Some k \<and>
          m = spanAttributes span)"
  using assms
  by (auto simp: exportSpan_def Let_def split: if_splits option.splits)

lemma exportLoop_entry:
  "exportLoop store spans k = Some m \<Longrightarrow>
   store k = Some m \<or>
   (\<exists>span \<in> set spans.
      keptName (Name span) \<and> spanAttributes span ''gcp.vertex.agent.event_id'' = Some k \<and>
      m = spanAttributes span)"
proof (induction spans arbitrary: store)
  case Nil
  then show ?case by simp
next
  case (Cons span spans)
  from Cons.prems have "exportLoop (exportSpan store span) spans k = Some m"
    by simp
  from Cons.IH [OF this] exportSpan_entry [of store span k m] show ?case
    by auto
qed

lemma exportBatches_entry:
  "traceDict (exportBatches s batches) k = Some m \<Longrightarrow>
   traceDict s k = Some m \<or>
   (\<exists>span \<in> set (concat batches).
      keptName (Name span) \<and> spanAttributes span ''gcp.vertex.agent.event_id'' = Some k \<and>
      m = spanAttributes span)"
proof (induction batches arbitrary: s)
  case Nil
  then show ?case by simp
next
  case (Cons batch batches)
  from Cons.prems
  have "traceDict (exportBatches (fst (ExportSpans s batch)) batches) k = Some m"
    by simp
  from Cons.IH [OF this]
  consider "exportLoop (traceDict s) batch k = Some m"
    | "\<exists>span \<in> set (concat batches).
        keptName (Name span) \<and> spanAttributes span ''gcp.vertex.agent.event_id'' = Some k \<and>
        m = spanAttributes span"
    by (auto simp: ExportSpans_def)
  then show ?case
  proof cases
    case 1
    from exportLoop_entry [OF this] show ?thesis by auto
  next
    case 2
    then show ?thesis by auto
  qed
qed

text \<open>
  C5. After any sequence of export batches on a new exporter, every entry of the trace
  store is the map of an exported span whose name is "call_llm" or "send_data" or starts
  with "execute_tool" and whose attributes hold the key "gcp.vertex.agent.event_id"; the
  entry's key is the value the map has there, and the map holds the span's "trace_id" and
  "span_id".
\<close>

theorem store_entries_origin:
  assumes "traceDict (exportBatches NewAPIServerSpanExporter batches) eventID = Some attributes"
  shows "\<exists>span \<in> set (concat batches).
           (Name span = ''call_llm'' \<or> Name span = ''send_data'' \<or>
            (\<exists>rest. Name span = ''execute_tool'' @ rest)) \<and>
           ''gcp.vertex.agent.event_id'' \<in> Key ` set (Attributes span) \<and>
           attributes = spanAttributes span \<and>
           attributes ''gcp.vertex.agent.event_id'' = Some eventID \<and>
           attributes ''trace_id'' = Some (TraceID span) \<and>
           attributes ''span_id'' = Some (SpanID span)"
proof -
  have "traceDict NewAPIServerSpanExporter eventID = None"
    by (simp add: NewAPIServerSpanExporter_def)
  with exportBatches_entry [OF assms]
  obtain span where span: "span \<in> set (concat batches)" "keptName (Name span)"
    "spanAttributes span ''gcp.vertex.agent.event_id'' = Some eventID"
    "attributes = spanAttributes span"
    by auto
  from span(2) have "Name span = ''call_llm'' \<or> Name span = ''send_data'' \<or>
      (\<exists>rest. Name span = ''execute_tool'' @ rest)"
    by (simp only: keptName_iff)
  with span spanAttributes_event_id [OF span(3)] spanAttributes_identifiers [of span]
  show ?thesis
    by blast
qed

theorem store_entries_origin_witness:
  "traceDict (exportBatches NewAPIServerSpanExporter
      [[\<lparr>Name = ''invocation'',
         Attributes = [attribute_String ''gcp.vertex.agent.event_id'' ''e0''],
         TraceID = ''t0'', SpanID = ''s0''\<rparr>],
       [\<lparr>Name = ''execute_tool_search'',
         Attributes = [attribute_String ''gcp.vertex.agent.event_id'' ''e1'',
                       attribute_String ''foo'' ''bar''],
         TraceID = ''t1'', SpanID = ''s1''\<rparr>]]) ''e1''
     = Some [''gcp.vertex.agent.event_id'' \<mapsto> ''e1'', ''foo'' \<mapsto> ''bar'',
             ''trace_id'' \<mapsto> ''t1'', ''span_id'' \<mapsto> ''s1''] \<and>
   (\<exists>span \<in> set (concat
      [[\<lparr>Name = ''invocation'',
         Attributes = [attribute_String ''gcp.vertex.agent.event_id'' ''e0''],
         TraceID = ''t0'', SpanID = ''s0''\<rparr>],
       [\<lparr>Name = ''execute_tool_search'',
         Attributes = [attribute_String ''gcp.vertex.agent.event_id'' ''e1'',
                       attribute_String ''foo'' ''bar''],
         TraceID = ''t1'', SpanID = ''s1''\<rparr>]]).
      (Name span = ''call_llm'' \<or> Name span = ''send_data'' \<or>
       (\<exists>rest. Name span = ''execute_tool'' @ rest)) \<and>
      ''gcp.vertex.agent.event_id'' \<in> Key ` set (Attributes span) \<and>
      [''gcp.vertex.agent.event_id'' \<mapsto> ''e1'', ''foo'' \<mapsto> ''bar'',
             ''trace_id'' \<mapsto> ''t1'', ''span_id'' \<mapsto> ''s1''] = spanAttributes span \<and>
      [''gcp.vertex.agent.event_id'' \<mapsto> ''e1'', ''foo'' \<mapsto> ''bar'',
             ''trace_id'' \<mapsto> ''t1'', ''span_id'' \<mapsto> ''s1''] ''gcp.vertex.agent.event_id'' = Some ''e1'' \<and>
      [''gcp.vertex.agent.event_id'' \<mapsto> ''e1'', ''foo'' \<mapsto> ''bar'',
             ''trace_id'' \<mapsto> ''t1'', ''span_id'' \<mapsto> ''s1''] ''trace_id'' = Some (TraceID span) \<and>
      [''gcp.vertex.agent.event_id'' \<mapsto> ''e1'', ''foo'' \<mapsto> ''bar'',
             ''trace_id'' \<mapsto> ''t1'', ''span_id'' \<mapsto> ''s1''] ''span_id'' = Some (SpanID span))"
proof -
  have stored: "traceDict (exportBatches NewAPIServerSpanExporter
      [[\<lparr>Name = ''invocation'',
         Attributes = [attribute_String ''gcp.vertex.agent.event_id'' ''e0''],
         TraceID = ''t0'', SpanID = ''s0''\<rparr>],
       [\<lparr>Name = ''execute_tool_search'',
         Attributes = [attribute_String ''gcp.vertex.agent.event_id'' ''e1'',
                       attribute_String ''foo'' ''bar''],
         TraceID = ''t1'', SpanID = ''s1''\<rparr>]]) ''e1''
     = Some [''gcp.vertex.agent.event_id'' \<mapsto> ''e1'', ''foo'' \<mapsto> ''bar'',
             ''trace_id'' \<mapsto> ''t1'', ''span_id'' \<mapsto> ''s1'']"
    by (simp add: NewAPIServerSpanExporter_def ExportSpans_def exportSpan_def keptName_def
        HasPrefix_def spanAttributes_def attribute_String_def)
  show ?thesis
    by (rule conjI, rule stored, rule store_entries_origin [OF stored])
qed

text \<open>
  C6, as stated, fails on a span that carries an event id and whose name the exporter does
  not keep: the entry at that id stays what it was.
\<close>

theorem reexport_not_kept_counterexample:
  "spanAttributes
     \<lparr>Name = ''invocation'',
      Attributes = [attribute_String ''gcp.vertex.agent.event_id'' ''e1''],
      TraceID = ''t1'', SpanID = ''s1''\<rparr> ''gcp.vertex.agent.event_id'' = Some ''e1'' \<and>
   traceDict \<lparr>traceDict = [''e1'' \<mapsto> [''foo'' \<mapsto> ''bar'']]\<rparr> ''e1'' = Some [''foo'' \<mapsto> ''bar''] \<and>
   traceDict (fst (ExportSpans \<lparr>traceDict = [''e1'' \<mapsto> [''foo'' \<mapsto> ''bar'']]\<rparr>
     [\<lparr>Name = ''invocation'',
       Attributes = [attribute_String ''gcp.vertex.agent.event_id'' ''e1''],
       TraceID = ''t1'', SpanID = ''s1''\<rparr>])) ''e1''
   \<noteq> Some (spanAttributes
       \<lparr>Name = ''invocation'',
        Attributes = [attribute_String ''gcp.vertex.agent.event_id'' ''e1''],
        TraceID = ''t1'', SpanID = ''s1''\<rparr>)"
proof -
  have "[''foo'' \<mapsto> ''bar''] ''trace_id'' \<noteq>
        spanAttributes
          \<lparr>Name = ''invocation'',
           Attributes = [attribute_String ''gcp.vertex.agent.event_id'' ''e1''],
           TraceID = ''t1'', SpanID = ''s1''\<rparr> ''trace_id''"
    by (simp add: spanAttributes_def)
  then have "[''foo'' \<mapsto> ''bar''] \<noteq>
        spanAttributes
          \<lparr>Name = ''invocation'',
           Attributes = [attribute_String ''gcp.vertex.agent.event_id'' ''e1''],
           TraceID = ''t1'', SpanID = ''s1''\<rparr>"
    by metis
  then show ?thesis
    by (simp add: ExportSpans_def exportSpan_def keptName_def HasPrefix_def)
      (simp add: spanAttributes_def attribute_String_def)
qed

lemma exportLoop_append:
  "exportLoop store (spans @ [span]) = exportSpan (exportLoop store spans) span"
  by (induction spans arbitrary: store) simp_all

text \<open>
  C6, amended. When a span whose name is "call_llm" or "send_data" or starts with
  "execute_tool" carries an event id, exporting it puts the span's map at that id and leaves
  every other entry as it was: a map that was there is replaced as a whole, nothing of it
  is merged. At the end of a longer batch the span does the same to whatever the spans
  before it left there.
\<close>

theorem reexport_overwrites:
  assumes "Name span = ''call_llm'' \<or> Name span = ''send_data'' \<or>
           (\<exists>rest. Name span = ''execute_tool'' @ rest)"
    and "spanAttributes span ''gcp.vertex.agent.event_id'' = Some eventID"
  shows "traceDict (fst (ExportSpans s [span])) = (traceDict s)(eventID \<mapsto> spanAttributes span) \<and>
         traceDict (fst (ExportSpans s (earlier @ [span]))) eventID = Some (spanAttributes span)"
proof -
  from assms(1) have "keptName (Name span)"
    by (simp only: keptName_iff)
  with assms(2) have "\<And>store. exportSpan store span = store(eventID \<mapsto> spanAttributes span)"
    by (simp add: exportSpan_def)
  then show ?thesis
    by (simp add: ExportSpans_def exportLoop_append)
qed

theorem reexport_overwrites_witness:
  "traceDict (fst (ExportSpans \<lparr>traceDict = [''e1'' \<mapsto> [''foo'' \<mapsto> ''bar'']]\<rparr>
     [\<lparr>Name = ''execute_tool_search'',
       Attributes = [attribute_String ''gcp.vertex.agent.event_id'' ''e1''],
       TraceID = ''t1'', SpanID = ''s1''\<rparr>])) ''e1''
   = Some [''gcp.vertex.agent.event_id'' \<mapsto> ''e1'', ''trace_id'' \<mapsto> ''t1'', ''span_id'' \<mapsto> ''s1'']"
  using reexport_overwrites [of
     "\<lparr>Name = ''execute_tool_search'',
       Attributes = [attribute_String ''gcp.vertex.agent.event_id'' ''e1''],
       TraceID = ''t1'', SpanID = ''s1''\<rparr>" "''e1''"
     "\<lparr>traceDict = [''e1'' \<mapsto> [''foo'' \<mapsto> ''bar'']]\<rparr>" "[]"]
  by (simp add: spanAttributes_def attribute_String_def)

end
